theory Spec2Isabelle
  imports Complex_Main
begin

section \<open>Constants of \<^verbatim>\<open>main.ts\<close>\<close>

text \<open>
  \<^verbatim>\<open>Sizes\<close> reads \<^verbatim>\<open>window.innerWidth\<close> and \<^verbatim>\<open>window.innerHeight\<close> once, when the
  script is loaded. Both are integers (CSS pixels), so the two environment-dependent
  fields are the parameters of the model; the rectangle's size is a pair of literals.
\<close>

record Sizes =
  CANVAS_WIDTH :: int
  CANVAS_HEIGHT :: int

definition RECT_WIDTH :: int where
  "RECT_WIDTH = 128"

definition RECT_HEIGHT :: int where
  "RECT_HEIGHT = 72"

text \<open>
  \<^verbatim>\<open>Math.floor(this.CANVAS_WIDTH / 2 - this.RECT_WIDTH / 2)\<close>: the division of
  JavaScript numbers is exact on halves of integers, so it is modelled over the rationals.
\<close>

definition rectCenterX :: "Sizes \<Rightarrow> int" where
  "rectCenterX S = \<lfloor>(of_int (CANVAS_WIDTH S) :: rat) / 2 - of_int RECT_WIDTH / 2\<rfloor>"

definition rectCenterY :: "Sizes \<Rightarrow> int" where
  "rectCenterY S = \<lfloor>(of_int (CANVAS_HEIGHT S) :: rat) / 2 - of_int RECT_HEIGHT / 2\<rfloor>"

definition UP :: int where "UP = - 1"
definition DOWN :: int where "DOWN = 1"
definition LEFT :: int where "LEFT = - 1"
definition RIGHT :: int where "RIGHT = 1"

definition colors :: "string list" where
  "colors = [''red'', ''green'', ''blue'', ''yellow'', ''pink'', ''magenta'', ''orange'', ''white'']"

section \<open>The entity \<^verbatim>\<open>FlyingRectangle\<close>\<close>

text \<open>
  The fields of the class, in the order of their initialisers. The fields \<^verbatim>\<open>x\<close> and
  \<^verbatim>\<open>y\<close> are called \<open>x_pos\<close> and \<open>y_pos\<close>, so that \<open>x\<close> and \<open>y\<close> stay
  free for variables. All fields are private, start at integers and are only changed by
  adding integers: positions, directions and speed are \<open>int\<close>; the colour counter starts
  at 0 and is only ever changed by \<^verbatim>\<open>+= 1\<close>, so it is a \<open>nat\<close>. (The numbers of the
  program are doubles, which are exact on integers below \<open>2 ^ 53\<close>.)
\<close>

record FlyingRectangle =
  colorIndex :: nat
  color :: string
  speed :: int
  x_pos :: int
  y_pos :: int
  xDir :: int
  yDir :: int

definition new_FlyingRectangle :: "Sizes \<Rightarrow> FlyingRectangle" where
  "new_FlyingRectangle S =
     \<lparr>colorIndex = 0, color = colors ! 0, speed = 2,
      x_pos = rectCenterX S, y_pos = rectCenterY S, xDir = 1, yDir = 1\<rparr>"

definition FlyingRectangle_setup :: "FlyingRectangle \<Rightarrow> FlyingRectangle" where
  "FlyingRectangle_setup r = r"

definition FlyingRectangle_updateColor :: "FlyingRectangle \<Rightarrow> FlyingRectangle" where
  "FlyingRectangle_updateColor r =
     (let r1 = r\<lparr>colorIndex := colorIndex r + 1\<rparr>
      in r1\<lparr>color := colors ! (colorIndex r1 mod length colors)\<rparr>)"

text \<open>
  The body of \<^verbatim>\<open>update()\<close> is four \<^verbatim>\<open>if\<close> statements without \<^verbatim>\<open>else\<close>, then the
  move. Each statement is a function of the state, named after its comment in the source;
  \<open>FlyingRectangle_update\<close> runs them in the source's order.
\<close>

definition update_colliding_right :: "Sizes \<Rightarrow> FlyingRectangle \<Rightarrow> FlyingRectangle" where
  "update_colliding_right S r =
     (if x_pos r + RECT_WIDTH \<ge> CANVAS_WIDTH S
      then FlyingRectangle_updateColor (r\<lparr>xDir := LEFT\<rparr>) else r)"

definition update_colliding_left :: "FlyingRectangle \<Rightarrow> FlyingRectangle" where
  "update_colliding_left r =
     (if x_pos r \<le> 0
      then FlyingRectangle_updateColor (r\<lparr>xDir := RIGHT\<rparr>) else r)"

definition update_colliding_bottom :: "Sizes \<Rightarrow> FlyingRectangle \<Rightarrow> FlyingRectangle" where
  "update_colliding_bottom S r =
     (if y_pos r + RECT_HEIGHT \<ge> CANVAS_HEIGHT S
      then FlyingRectangle_updateColor (r\<lparr>yDir := UP\<rparr>) else r)"

definition update_colliding_top :: "FlyingRectangle \<Rightarrow> FlyingRectangle" where
  "update_colliding_top r =
     (if y_pos r \<le> 0
      then FlyingRectangle_updateColor (r\<lparr>yDir := DOWN\<rparr>) else r)"

definition update_move :: "FlyingRectangle \<Rightarrow> FlyingRectangle" where
  "update_move r =
     (let r1 = r\<lparr>x_pos := x_pos r + xDir r * speed r\<rparr>
      in r1\<lparr>y_pos := y_pos r1 + yDir r1 * speed r1\<rparr>)"

definition FlyingRectangle_update :: "Sizes \<Rightarrow> FlyingRectangle \<Rightarrow> FlyingRectangle" where
  "FlyingRectangle_update S r =
     update_move
       (update_colliding_top
         (update_colliding_bottom S
           (update_colliding_left
             (update_colliding_right S r))))"

section \<open>The drawing surface\<close>

text \<open>
  \<^verbatim>\<open>RenderContext\<close> is the browser's \<^verbatim>\<open>CanvasRenderingContext2D\<close>. The model keeps the
  part of it that the program touches: the fill style, the current path (a list of points,
  emptied by \<^verbatim>\<open>beginPath()\<close>) and the pixels. A pixel is \<open>None\<close> when it is cleared
  (transparent, so the canvas background shows) and \<open>Some c\<close> when it was filled with
  the style \<open>c\<close>. The pixel grid is the whole plane; what is visible of it is the part
  inside the canvas, \<open>0 \<le> i < CANVAS_WIDTH\<close> and \<open>0 \<le> j < CANVAS_HEIGHT\<close>.
\<close>

record RenderContext =
  fillStyle :: string
  path :: "(int \<times> int) list"
  bitmap :: "int \<times> int \<Rightarrow> string option"

definition in_rect :: "int \<Rightarrow> int \<Rightarrow> int \<Rightarrow> int \<Rightarrow> int \<times> int \<Rightarrow> bool" where
  "in_rect px py w h p = (px \<le> fst p \<and> fst p < px + w \<and> py \<le> snd p \<and> snd p < py + h)"

definition beginPath :: "RenderContext \<Rightarrow> RenderContext" where
  "beginPath c = c\<lparr>path := []\<rparr>"

definition fillRect :: "int \<Rightarrow> int \<Rightarrow> int \<Rightarrow> int \<Rightarrow> RenderContext \<Rightarrow> RenderContext" where
  "fillRect px py w h c =
     c\<lparr>bitmap := (\<lambda>p. if in_rect px py w h p then Some (fillStyle c) else bitmap c p)\<rparr>"

definition clearRect :: "int \<Rightarrow> int \<Rightarrow> int \<Rightarrow> int \<Rightarrow> RenderContext \<Rightarrow> RenderContext" where
  "clearRect px py w h c =
     c\<lparr>bitmap := (\<lambda>p. if in_rect px py w h p then None else bitmap c p)\<rparr>"

text \<open>
  \<^verbatim>\<open>render(context)\<close> of the entity. A method may assign to the fields of \<^verbatim>\<open>this\<close>
  as well as draw, so the model returns the entity together with the context.
\<close>

definition FlyingRectangle_render ::
  "FlyingRectangle \<Rightarrow> RenderContext \<Rightarrow> FlyingRectangle \<times> RenderContext" where
  "FlyingRectangle_render r c =
     (let c1 = beginPath c;
          c2 = c1\<lparr>fillStyle := color r\<rparr>;
          c3 = fillRect (x_pos r) (y_pos r) RECT_WIDTH RECT_HEIGHT c2
      in (r, c3))"

section \<open>The class \<^verbatim>\<open>Application\<close>\<close>

text \<open>
  The only class that implements \<^verbatim>\<open>Entity\<close> is \<^verbatim>\<open>FlyingRectangle\<close>, and
  \<^verbatim>\<open>Application.setup\<close> pushes nothing else, so the entity collection is a list of
  \<open>FlyingRectangle\<close>s. The field \<^verbatim>\<open>context\<close> is called \<open>context2d\<close>.
\<close>

record Application =
  entities :: "FlyingRectangle list"
  context2d :: RenderContext

definition new_Application :: "RenderContext \<Rightarrow> Application" where
  "new_Application c = \<lparr>entities = [], context2d = c\<rparr>"

definition Application_setup :: "Sizes \<Rightarrow> Application \<Rightarrow> Application" where
  "Application_setup S app = app\<lparr>entities := entities app @ [new_FlyingRectangle S]\<rparr>"

definition Application_update :: "Sizes \<Rightarrow> Application \<Rightarrow> Application" where
  "Application_update S app = app\<lparr>entities := map (FlyingRectangle_update S) (entities app)\<rparr>"

definition Application_clear :: "Sizes \<Rightarrow> Application \<Rightarrow> Application" where
  "Application_clear S app =
     app\<lparr>context2d := clearRect 0 0 (CANVAS_WIDTH S) (CANVAS_HEIGHT S) (context2d app)\<rparr>"

text \<open>\<^verbatim>\<open>this.entities.forEach((it) => it.render(this.context))\<close>, front to back.\<close>

fun forEach_render ::
  "FlyingRectangle list \<Rightarrow> RenderContext \<Rightarrow> FlyingRectangle list \<times> RenderContext" where
  "forEach_render [] c = ([], c)"
| "forEach_render (e # es) c =
     (case FlyingRectangle_render e c of
        (e', c') \<Rightarrow> (case forEach_render es c' of (es', c'') \<Rightarrow> (e' # es', c'')))"

definition Application_render :: "Sizes \<Rightarrow> Application \<Rightarrow> Application" where
  "Application_render S app =
     (let app1 = Application_clear S app
      in case forEach_render (entities app1) (context2d app1) of
           (es, c) \<Rightarrow> app1\<lparr>entities := es, context2d := c\<rparr>)"

text \<open>
  \<^verbatim>\<open>run()\<close> never returns: after \<^verbatim>\<open>setup()\<close> it repeats \<^verbatim>\<open>update()\<close> and
  \<^verbatim>\<open>render()\<close>, once for each animation frame. \<open>Application_run S n\<close> is the state
  after the first \<open>n\<close> frames.
\<close>

primrec Application_frames :: "Sizes \<Rightarrow> nat \<Rightarrow> Application \<Rightarrow> Application" where
  "Application_frames S 0 app = app"
| "Application_frames S (Suc n) app =
     Application_frames S n (Application_render S (Application_update S app))"

definition Application_run :: "Sizes \<Rightarrow> nat \<Rightarrow> Application \<Rightarrow> Application" where
  "Application_run S n app = Application_frames S n (Application_setup S app)"

section \<open>Start-up\<close>

text \<open>
  The page: the mounting element with its child nodes, and the canvas element.
  \<^verbatim>\<open>new Error(msg)\<close> is an object whose \<^verbatim>\<open>name\<close> is \<^verbatim>\<open>"Error"\<close> and whose
  \<^verbatim>\<open>message\<close> is \<open>msg\<close>; a \<^verbatim>\<open>throw\<close> is the left summand of the result.
\<close>

record Canvas =
  width :: int
  height :: int
  style :: string

datatype Node = CanvasNode Canvas | OtherNode string

record Element =
  childNodes :: "Node list"

record js_error =
  name :: string
  message :: string

definition new_Error :: "string \<Rightarrow> js_error" where
  "new_Error msg = \<lparr>name = ''Error'', message = msg\<rparr>"

definition createElement_canvas :: Canvas where
  "createElement_canvas = \<lparr>width = 300, height = 150, style = []\<rparr>"

definition appendChild :: "Element \<Rightarrow> Node \<Rightarrow> Element" where
  "appendChild el n = el\<lparr>childNodes := childNodes el @ [n]\<rparr>"

text \<open>The canvas as \<^verbatim>\<open>Application.create\<close> has set it up when it is appended.\<close>

definition create_canvas :: "Sizes \<Rightarrow> Canvas" where
  "create_canvas S =
     (let canvas = createElement_canvas;
          canvas1 = canvas\<lparr>width := CANVAS_WIDTH S\<rparr>;
          canvas2 = canvas1\<lparr>height := CANVAS_HEIGHT S\<rparr>
      in canvas2\<lparr>style := ''background: #000''\<rparr>)"

text \<open>
  \<^verbatim>\<open>Application.create(root)\<close>. The browser's \<^verbatim>\<open>canvas.getContext('2d')\<close> is the
  parameter \<open>getContext\<close>; it answers \<open>None\<close> for \<^verbatim>\<open>null\<close>. \<^verbatim>\<open>appendChild\<close>
  changes the mounting element in place, so the element is returned next to the result,
  on the failing path too.
\<close>

definition Application_create ::
  "Sizes \<Rightarrow> (Canvas \<Rightarrow> RenderContext option) \<Rightarrow> Element \<Rightarrow> Element \<times> (js_error + Application)" where
  "Application_create S getContext rootEl =
     (let canvas = create_canvas S;
          root1 = appendChild rootEl (CanvasNode canvas)
      in case getContext canvas of
           None \<Rightarrow> (root1, Inl (new_Error ''Failed to retrieve rendering context''))
         | Some renderingContext \<Rightarrow> (root1, Inr (new_Application renderingContext)))"

text \<open>
  The top level of the script: \<open>rootEl\<close> is what the constant \<^verbatim>\<open>root\<close> holds, that is what
  \<^verbatim>\<open>document.querySelector('div#root')\<close> finds, \<open>None\<close> for \<^verbatim>\<open>null\<close>, and \<open>n\<close> is
  the number of frames that \<^verbatim>\<open>run()\<close> is watched for.
\<close>

definition main ::
  "Sizes \<Rightarrow> Element option \<Rightarrow> (Canvas \<Rightarrow> RenderContext option) \<Rightarrow> nat
     \<Rightarrow> Element option \<times> (js_error + Application)" where
  "main S rootEl getContext n =
     (case rootEl of
        None \<Rightarrow> (None, Inl (new_Error ''Root element is missing''))
      | Some el \<Rightarrow>
          (case Application_create S getContext el of
             (el1, Inl e) \<Rightarrow> (Some el1, Inl e)
           | (el1, Inr app) \<Rightarrow> (Some el1, Inr (Application_run S n app))))"

section \<open>Predicates of the properties\<close>

text \<open>
  The bounds that the specification states for the position before each \<^verbatim>\<open>update()\<close>,
  together with the two possible values of each direction.
\<close>

definition in_bounds :: "Sizes \<Rightarrow> FlyingRectangle \<Rightarrow> bool" where
  "in_bounds S r =
     (- speed r \<le> x_pos r \<and> x_pos r \<le> CANVAS_WIDTH S
      \<and> - speed r \<le> y_pos r \<and> y_pos r \<le> CANVAS_HEIGHT S
      \<and> (xDir r = - 1 \<or> xDir r = 1) \<and> (yDir r = - 1 \<or> yDir r = 1))"

text \<open>
  The invariant that one \<^verbatim>\<open>update()\<close> preserves on a surface of at least 124 by 68:
  the rectangle never gets further than one step past the walls it bounces off.
\<close>

definition bounce_inv :: "Sizes \<Rightarrow> FlyingRectangle \<Rightarrow> bool" where
  "bounce_inv S r =
     (speed r = 2
      \<and> - 2 \<le> x_pos r \<and> x_pos r \<le> max 2 (CANVAS_WIDTH S - 126)
      \<and> - 2 \<le> y_pos r \<and> y_pos r \<le> max 2 (CANVAS_HEIGHT S - 70)
      \<and> (xDir r = - 1 \<or> xDir r = 1) \<and> (yDir r = - 1 \<or> yDir r = 1))"

text \<open>The field \<^verbatim>\<open>color\<close> is the palette entry of the counter, reduced modulo the length.\<close>

definition color_consistent :: "FlyingRectangle \<Rightarrow> bool" where
  "color_consistent r = (color r = colors ! (colorIndex r mod length colors))"

text \<open>
  The three methods of the \<^verbatim>\<open>Entity\<close> interface, as calls on one entity and the
  context it draws into; a sequence of operations is a list of calls, run by \<open>foldl\<close>.
\<close>

datatype entity_call = Setup | Update | Render

fun call_entity ::
  "Sizes \<Rightarrow> FlyingRectangle \<times> RenderContext \<Rightarrow> entity_call \<Rightarrow> FlyingRectangle \<times> RenderContext" where
  "call_entity S (r, c) Setup = (FlyingRectangle_setup r, c)"
| "call_entity S (r, c) Update = (FlyingRectangle_update S r, c)"
| "call_entity S (r, c) Render = FlyingRectangle_render r c"

text \<open>
  What the specification says a frame shows: a pixel has the colour of the last entity of
  the collection whose rectangle covers it, and is cleared when none does.
\<close>

definition covers :: "FlyingRectangle \<Rightarrow> int \<times> int \<Rightarrow> bool" where
  "covers e p = in_rect (x_pos e) (y_pos e) RECT_WIDTH RECT_HEIGHT p"

fun top_color :: "FlyingRectangle list \<Rightarrow> int \<times> int \<Rightarrow> string option" where
  "top_color [] p = None"
| "top_color (e # es) p =
     (case top_color es p of
        Some col \<Rightarrow> Some col
      | None \<Rightarrow> if covers e p then Some (color e) else None)"

section \<open>Concrete states and surfaces\<close>

definition surface_1000_800 :: Sizes where
  "surface_1000_800 = \<lparr>CANVAS_WIDTH = 1000, CANVAS_HEIGHT = 800\<rparr>"

definition surface_100_100 :: Sizes where
  "surface_100_100 = \<lparr>CANVAS_WIDTH = 100, CANVAS_HEIGHT = 100\<rparr>"

definition interior_state :: FlyingRectangle where
  "interior_state =
     \<lparr>colorIndex = 3, color = ''yellow'', speed = 2,
      x_pos = 500, y_pos = 1, xDir = - 1, yDir = 1\<rparr>"

definition start_874 :: FlyingRectangle where
  "start_874 =
     \<lparr>colorIndex = 0, color = ''red'', speed = 2,
      x_pos = 874, y_pos = 364, xDir = 1, yDir = 1\<rparr>"

text \<open>A corner of the 1000 by 800 surface: the right wall and the top wall at once.\<close>

definition corner_1000 :: FlyingRectangle where
  "corner_1000 =
     \<lparr>colorIndex = 5, color = ''magenta'', speed = 2,
      x_pos = 872, y_pos = 0, xDir = 1, yDir = - 1\<rparr>"

text \<open>
  The state that the program is in after seven frames in a window of 100 by 100 pixels:
  the surface is narrower than the rectangle, and the rectangle touches the bottom.
\<close>

definition corner_100 :: FlyingRectangle where
  "corner_100 =
     \<lparr>colorIndex = 14, color = ''orange'', speed = 2,
      x_pos = 0, y_pos = 28, xDir = 1, yDir = 1\<rparr>"

definition blank_context :: RenderContext where
  "blank_context = \<lparr>fillStyle = ''#000000'', path = [], bitmap = (\<lambda>p. None)\<rparr>"

text \<open>A browser that has no 2D context to give, and one that gives a blank one.\<close>

definition no_context :: "Canvas \<Rightarrow> RenderContext option" where
  "no_context canvas = None"

definition fresh_context :: "Canvas \<Rightarrow> RenderContext option" where
  "fresh_context canvas = Some blank_context"

definition empty_root :: Element where
  "empty_root = \<lparr>childNodes = []\<rparr>"

definition two_rectangles :: Application where
  "two_rectangles = \<lparr>entities = [interior_state, corner_1000], context2d = blank_context\<rparr>"

section \<open>One step of the rectangle, field by field\<close>

lemmas update_defs =
  FlyingRectangle_update_def update_colliding_right_def update_colliding_left_def
  update_colliding_bottom_def update_colliding_top_def update_move_def
  FlyingRectangle_updateColor_def RECT_WIDTH_def RECT_HEIGHT_def
  UP_def DOWN_def LEFT_def RIGHT_def

lemma rectCenterX_eq: "rectCenterX S = CANVAS_WIDTH S div 2 - 64"
  by (simp add: rectCenterX_def RECT_WIDTH_def floor_divide_of_int_eq[where ?'a = rat, of _ 2, simplified])

lemma rectCenterY_eq: "rectCenterY S = CANVAS_HEIGHT S div 2 - 36"
  by (simp add: rectCenterY_def RECT_HEIGHT_def floor_divide_of_int_eq[where ?'a = rat, of _ 2, simplified])

lemma update_speed: "speed (FlyingRectangle_update S r) = speed r"
  by (simp add: update_defs Let_def)

lemma update_xDir:
  "xDir (FlyingRectangle_update S r) =
     (if x_pos r \<le> 0 then RIGHT
      else if CANVAS_WIDTH S \<le> x_pos r + RECT_WIDTH then LEFT else xDir r)"
  by (simp add: update_defs Let_def)

lemma update_yDir:
  "yDir (FlyingRectangle_update S r) =
     (if y_pos r \<le> 0 then DOWN
      else if CANVAS_HEIGHT S \<le> y_pos r + RECT_HEIGHT then UP else yDir r)"
  by (simp add: update_defs Let_def)

lemma update_x_pos:
  "x_pos (FlyingRectangle_update S r) = x_pos r + xDir (FlyingRectangle_update S r) * speed r"
  by (simp add: update_defs Let_def)

lemma update_y_pos:
  "y_pos (FlyingRectangle_update S r) = y_pos r + yDir (FlyingRectangle_update S r) * speed r"
  by (simp add: update_defs Let_def)

lemma update_colorIndex:
  "colorIndex (FlyingRectangle_update S r) =
     colorIndex r
     + (if CANVAS_WIDTH S \<le> x_pos r + RECT_WIDTH then 1 else 0)
     + (if x_pos r \<le> 0 then 1 else 0)
     + (if CANVAS_HEIGHT S \<le> y_pos r + RECT_HEIGHT then 1 else 0)
     + (if y_pos r \<le> 0 then 1 else 0)"
  by (simp add: update_defs Let_def)

lemma length_colors: "length colors = 8"
  by (simp add: colors_def)

lemma updateColor_consistent: "color_consistent (FlyingRectangle_updateColor r)"
  by (simp add: color_consistent_def FlyingRectangle_updateColor_def Let_def)

lemma update_consistent:
  "color_consistent r \<Longrightarrow> color_consistent (FlyingRectangle_update S r)"
  by (simp add: color_consistent_def update_defs Let_def)

lemma new_consistent: "color_consistent (new_FlyingRectangle S)"
  by (simp add: color_consistent_def new_FlyingRectangle_def)

section \<open>Bouncing\<close>

text \<open>
  C1. Away from all four walls, that is with \<open>0 < x < CANVAS_WIDTH - RECT_WIDTH\<close> and
  \<open>0 < y < CANVAS_HEIGHT - RECT_HEIGHT\<close>, one \<^verbatim>\<open>update()\<close> moves the rectangle by exactly
  \<open>(xDir * speed, yDir * speed)\<close> and changes nothing else: the colour counter, both
  directions, the colour and the speed stay as they were.
\<close>

theorem update_interior:
  assumes "0 < x_pos r" and "x_pos r < CANVAS_WIDTH S - RECT_WIDTH"
    and "0 < y_pos r" and "y_pos r < CANVAS_HEIGHT S - RECT_HEIGHT"
  shows "x_pos (FlyingRectangle_update S r) = x_pos r + xDir r * speed r
       \<and> y_pos (FlyingRectangle_update S r) = y_pos r + yDir r * speed r
       \<and> colorIndex (FlyingRectangle_update S r) = colorIndex r
       \<and> xDir (FlyingRectangle_update S r) = xDir r
       \<and> yDir (FlyingRectangle_update S r) = yDir r
       \<and> color (FlyingRectangle_update S r) = color r
       \<and> speed (FlyingRectangle_update S r) = speed r"
  using assms by (simp add: update_defs)

text \<open>On the 1000 by 800 surface, a rectangle at (500, 1) moving left and down.\<close>

theorem update_interior_witness:
  "0 < x_pos interior_state \<and> x_pos interior_state < CANVAS_WIDTH surface_1000_800 - RECT_WIDTH
   \<and> 0 < y_pos interior_state \<and> y_pos interior_state < CANVAS_HEIGHT surface_1000_800 - RECT_HEIGHT
   \<and> x_pos (FlyingRectangle_update surface_1000_800 interior_state) = 498
   \<and> y_pos (FlyingRectangle_update surface_1000_800 interior_state) = 3
   \<and> colorIndex (FlyingRectangle_update surface_1000_800 interior_state) = 3
   \<and> xDir (FlyingRectangle_update surface_1000_800 interior_state) = - 1
   \<and> yDir (FlyingRectangle_update surface_1000_800 interior_state) = 1"
  using update_interior [of interior_state surface_1000_800]
  by (simp add: interior_state_def surface_1000_800_def RECT_WIDTH_def RECT_HEIGHT_def)

text \<open>
  C2, as the code has it. On a surface 1000 wide, with speed 2, at \<open>x = 874\<close> moving
  right and with \<open>y\<close> away from the top and the bottom for three steps: the right-hand
  check already holds at 874, because \<open>874 + 128 = 1002 \<ge> 1000\<close>. So the first
  \<^verbatim>\<open>update()\<close> turns the direction to \<open>LEFT\<close>, advances the colour counter by 1 and
  gives \<open>x = 872\<close>. The second finds \<open>872 + 128 = 1000 \<ge> 1000\<close>: the direction stays
  \<open>LEFT\<close>, the counter advances by 1 again and \<open>x = 870\<close>. The third changes neither
  direction nor counter and gives \<open>x = 868\<close>.
\<close>

theorem update_at_874:
  assumes "CANVAS_WIDTH S = 1000" and "speed r = 2" and "x_pos r = 874" and "xDir r = RIGHT"
    and "4 < y_pos r" and "y_pos r + RECT_HEIGHT + 4 < CANVAS_HEIGHT S"
    and "yDir r = UP \<or> yDir r = DOWN"
  shows "x_pos (FlyingRectangle_update S r) = 872
       \<and> xDir (FlyingRectangle_update S r) = LEFT
       \<and> colorIndex (FlyingRectangle_update S r) = colorIndex r + 1
       \<and> x_pos (FlyingRectangle_update S (FlyingRectangle_update S r)) = 870
       \<and> xDir (FlyingRectangle_update S (FlyingRectangle_update S r)) = LEFT
       \<and> colorIndex (FlyingRectangle_update S (FlyingRectangle_update S r)) = colorIndex r + 2
       \<and> x_pos (FlyingRectangle_update S (FlyingRectangle_update S (FlyingRectangle_update S r))) = 868
       \<and> xDir (FlyingRectangle_update S (FlyingRectangle_update S (FlyingRectangle_update S r))) = LEFT
       \<and> colorIndex (FlyingRectangle_update S (FlyingRectangle_update S (FlyingRectangle_update S r)))
           = colorIndex r + 2"
proof -
  let ?r1 = "FlyingRectangle_update S r"
  let ?r2 = "FlyingRectangle_update S ?r1"
  let ?r3 = "FlyingRectangle_update S ?r2"
  have y1: "2 < y_pos ?r1 \<and> y_pos ?r1 + RECT_HEIGHT + 2 < CANVAS_HEIGHT S
      \<and> (yDir ?r1 = UP \<or> yDir ?r1 = DOWN)"
    using assms by (auto simp: update_y_pos update_yDir RECT_HEIGHT_def UP_def DOWN_def)
  have x1: "x_pos ?r1 = 872 \<and> xDir ?r1 = LEFT \<and> speed ?r1 = 2"
    using assms by (simp add: update_x_pos update_xDir update_speed RECT_WIDTH_def LEFT_def)
  have c1: "colorIndex ?r1 = colorIndex r + 1"
    using assms by (simp add: update_colorIndex RECT_WIDTH_def RECT_HEIGHT_def)
  have y2: "0 < y_pos ?r2 \<and> y_pos ?r2 + RECT_HEIGHT < CANVAS_HEIGHT S"
    using y1 x1 by (auto simp: update_y_pos [of S ?r1] update_yDir [of S ?r1] RECT_HEIGHT_def UP_def DOWN_def)
  have x2: "x_pos ?r2 = 870 \<and> xDir ?r2 = LEFT \<and> speed ?r2 = 2"
    using assms(1) x1
    by (simp add: update_x_pos [of S ?r1] update_xDir [of S ?r1] update_speed [of S ?r1] RECT_WIDTH_def LEFT_def)
  have c2: "colorIndex ?r2 = colorIndex r + 2"
    using assms(1) x1 y1 c1 by (simp add: update_colorIndex [of S ?r1] RECT_WIDTH_def RECT_HEIGHT_def)
  have x3: "x_pos ?r3 = 868 \<and> xDir ?r3 = LEFT"
    using assms(1) x2
    by (simp add: update_x_pos [of S ?r2] update_xDir [of S ?r2] RECT_WIDTH_def LEFT_def)
  have c3: "colorIndex ?r3 = colorIndex r + 2"
    using assms(1) x2 y2 c2 by (simp add: update_colorIndex [of S ?r2] RECT_WIDTH_def RECT_HEIGHT_def)
  show ?thesis
    using x1 c1 x2 c2 x3 c3 by simp
qed

theorem update_at_874_witness:
  "CANVAS_WIDTH surface_1000_800 = 1000 \<and> speed start_874 = 2 \<and> x_pos start_874 = 874
   \<and> xDir start_874 = RIGHT \<and> 4 < y_pos start_874
   \<and> y_pos start_874 + RECT_HEIGHT + 4 < CANVAS_HEIGHT surface_1000_800
   \<and> (yDir start_874 = UP \<or> yDir start_874 = DOWN)
   \<and> x_pos (FlyingRectangle_update surface_1000_800 start_874) = 872
   \<and> xDir (FlyingRectangle_update surface_1000_800 start_874) = LEFT
   \<and> colorIndex (FlyingRectangle_update surface_1000_800 start_874) = 1"
  using update_at_874 [of surface_1000_800 start_874]
  by (simp add: surface_1000_800_def start_874_def RECT_HEIGHT_def RIGHT_def DOWN_def)

text \<open>
  C2 as it is stated says that the first \<^verbatim>\<open>update()\<close> from \<open>x = 874\<close> gives
  \<open>x = 876\<close> with the direction unchanged. It does not.
\<close>

theorem update_at_874_flips_at_once:
  "\<not> (x_pos (FlyingRectangle_update surface_1000_800 start_874) = 876
      \<and> xDir (FlyingRectangle_update surface_1000_800 start_874) = xDir start_874)"
  by (simp add: update_x_pos update_xDir surface_1000_800_def start_874_def
      RECT_WIDTH_def LEFT_def)

text \<open>
  C3, as the code has it. When exactly one of the two checks of the x axis holds and
  exactly one of the two checks of the y axis holds, one \<^verbatim>\<open>update()\<close> advances the
  colour counter by exactly 2. (On a surface wider and higher than the rectangle the two
  checks of an axis never hold together.)
\<close>

theorem corner_two_increments:
  assumes "CANVAS_WIDTH S \<le> x_pos r + RECT_WIDTH \<or> x_pos r \<le> 0"
    and "CANVAS_HEIGHT S \<le> y_pos r + RECT_HEIGHT \<or> y_pos r \<le> 0"
    and "\<not> (CANVAS_WIDTH S \<le> x_pos r + RECT_WIDTH \<and> x_pos r \<le> 0)"
    and "\<not> (CANVAS_HEIGHT S \<le> y_pos r + RECT_HEIGHT \<and> y_pos r \<le> 0)"
  shows "colorIndex (FlyingRectangle_update S r) = colorIndex r + 2"
  using assms by (auto simp: update_colorIndex)

theorem corner_two_increments_witness:
  "(CANVAS_WIDTH surface_1000_800 \<le> x_pos corner_1000 + RECT_WIDTH \<or> x_pos corner_1000 \<le> 0)
   \<and> (CANVAS_HEIGHT surface_1000_800 \<le> y_pos corner_1000 + RECT_HEIGHT \<or> y_pos corner_1000 \<le> 0)
   \<and> \<not> (CANVAS_WIDTH surface_1000_800 \<le> x_pos corner_1000 + RECT_WIDTH \<and> x_pos corner_1000 \<le> 0)
   \<and> \<not> (CANVAS_HEIGHT surface_1000_800 \<le> y_pos corner_1000 + RECT_HEIGHT \<and> y_pos corner_1000 \<le> 0)
   \<and> colorIndex (FlyingRectangle_update surface_1000_800 corner_1000) = 7"
  using corner_two_increments [of surface_1000_800 corner_1000]
  by (simp add: surface_1000_800_def corner_1000_def RECT_WIDTH_def RECT_HEIGHT_def)

text \<open>
  In a window of 100 by 100 pixels the program reaches \<open>corner_100\<close> after seven
  frames: until then both checks of the x axis hold in every frame.
\<close>

lemma narrow_start:
  "n \<le> 7 \<Longrightarrow>
   (FlyingRectangle_update surface_100_100 ^^ n) (new_FlyingRectangle surface_100_100) =
     \<lparr>colorIndex = 2 * n, color = colors ! ((2 * n) mod 8), speed = 2,
      x_pos = 2 * int n - 14, y_pos = 2 * int n + 14, xDir = 1, yDir = 1\<rparr>"
proof (induction n)
  case 0
  show ?case
    by (simp add: new_FlyingRectangle_def rectCenterX_eq rectCenterY_eq surface_100_100_def)
next
  case (Suc n)
  then have "n \<le> 7" and "n < 7" by simp_all
  with Suc.IH show ?case
    by (simp add: update_defs Let_def surface_100_100_def colors_def)
qed

lemma corner_100_reached:
  "(FlyingRectangle_update surface_100_100 ^^ 7) (new_FlyingRectangle surface_100_100) = corner_100"
  using narrow_start [of 7] by (simp add: corner_100_def colors_def)

text \<open>
  C3 as it is stated asks for an increment of exactly 2 whenever some check of the x axis
  and some check of the y axis hold. At \<open>corner_100\<close> both checks of the x axis and the
  bottom check hold, and the counter advances by 3.
\<close>

theorem narrow_corner_three_increments:
  "(CANVAS_WIDTH surface_100_100 \<le> x_pos corner_100 + RECT_WIDTH \<or> x_pos corner_100 \<le> 0)
   \<and> (CANVAS_HEIGHT surface_100_100 \<le> y_pos corner_100 + RECT_HEIGHT \<or> y_pos corner_100 \<le> 0)
   \<and> colorIndex (FlyingRectangle_update surface_100_100 corner_100) = colorIndex corner_100 + 3"
  by (simp add: update_colorIndex surface_100_100_def corner_100_def RECT_WIDTH_def RECT_HEIGHT_def)

text \<open>
  C9. When both checks of the x axis hold at the start of an \<^verbatim>\<open>update()\<close>, the
  direction after the two checks is \<open>RIGHT\<close>, since the left check runs second, and the
  two checks have advanced the colour counter by 2; the whole \<^verbatim>\<open>update()\<close> then moves
  right by \<open>speed\<close> and has advanced the counter by at least 2. This needs a surface that
  is not wider than the rectangle.
\<close>

theorem both_x_checks:
  assumes "CANVAS_WIDTH S \<le> x_pos r + RECT_WIDTH" and "x_pos r \<le> 0"
  shows "xDir (update_colliding_left (update_colliding_right S r)) = RIGHT
       \<and> colorIndex (update_colliding_left (update_colliding_right S r)) = colorIndex r + 2
       \<and> xDir (FlyingRectangle_update S r) = RIGHT
       \<and> x_pos (FlyingRectangle_update S r) = x_pos r + speed r
       \<and> colorIndex r + 2 \<le> colorIndex (FlyingRectangle_update S r)
       \<and> CANVAS_WIDTH S \<le> RECT_WIDTH"
  using assms by (simp add: update_defs Let_def)

theorem both_x_checks_witness:
  "CANVAS_WIDTH surface_100_100 \<le> x_pos corner_100 + RECT_WIDTH \<and> x_pos corner_100 \<le> 0
   \<and> xDir (update_colliding_left (update_colliding_right surface_100_100 corner_100)) = RIGHT
   \<and> colorIndex (update_colliding_left (update_colliding_right surface_100_100 corner_100)) = 16
   \<and> x_pos (FlyingRectangle_update surface_100_100 corner_100) = 2"
  using both_x_checks [of surface_100_100 corner_100]
  by (simp add: surface_100_100_def corner_100_def RECT_WIDTH_def)

section \<open>The position stays near the surface\<close>

lemma bounce_inv_new:
  "124 \<le> CANVAS_WIDTH S \<Longrightarrow> 68 \<le> CANVAS_HEIGHT S \<Longrightarrow> bounce_inv S (new_FlyingRectangle S)"
  by (simp add: bounce_inv_def new_FlyingRectangle_def rectCenterX_eq rectCenterY_eq) linarith

lemma bounce_inv_update:
  assumes "124 \<le> CANVAS_WIDTH S" and "68 \<le> CANVAS_HEIGHT S" and "bounce_inv S r"
  shows "bounce_inv S (FlyingRectangle_update S r)"
proof -
  from assms(3) have sp: "speed r = 2"
    and xb: "- 2 \<le> x_pos r" "x_pos r \<le> max 2 (CANVAS_WIDTH S - 126)"
    and yb: "- 2 \<le> y_pos r" "y_pos r \<le> max 2 (CANVAS_HEIGHT S - 70)"
    and xd: "xDir r = - 1 \<or> xDir r = 1" and yd: "yDir r = - 1 \<or> yDir r = 1"
    by (simp_all add: bounce_inv_def)
  have x: "- 2 \<le> x_pos (FlyingRectangle_update S r)
      \<and> x_pos (FlyingRectangle_update S r) \<le> max 2 (CANVAS_WIDTH S - 126)
      \<and> (xDir (FlyingRectangle_update S r) = - 1 \<or> xDir (FlyingRectangle_update S r) = 1)"
    using assms(1) sp xb xd
    by (auto simp: update_x_pos update_xDir RECT_WIDTH_def LEFT_def RIGHT_def)
  have y: "- 2 \<le> y_pos (FlyingRectangle_update S r)
      \<and> y_pos (FlyingRectangle_update S r) \<le> max 2 (CANVAS_HEIGHT S - 70)
      \<and> (yDir (FlyingRectangle_update S r) = - 1 \<or> yDir (FlyingRectangle_update S r) = 1)"
    using assms(2) sp yb yd
    by (auto simp: update_y_pos update_yDir RECT_HEIGHT_def UP_def DOWN_def)
  show ?thesis
    using x y sp by (simp add: bounce_inv_def update_speed)
qed

lemma bounce_inv_funpow:
  "124 \<le> CANVAS_WIDTH S \<Longrightarrow> 68 \<le> CANVAS_HEIGHT S
     \<Longrightarrow> bounce_inv S ((FlyingRectangle_update S ^^ n) (new_FlyingRectangle S))"
  by (induction n) (simp_all add: bounce_inv_new bounce_inv_update)

lemma bounce_inv_in_bounds:
  "124 \<le> CANVAS_WIDTH S \<Longrightarrow> 68 \<le> CANVAS_HEIGHT S \<Longrightarrow> bounce_inv S r \<Longrightarrow> in_bounds S r"
  by (auto simp: bounce_inv_def in_bounds_def)

text \<open>A narrower surface puts the centred rectangle more than one step left of 0.\<close>

lemma narrow_surface_starts_outside:
  "CANVAS_WIDTH S < 124 \<Longrightarrow> x_pos (new_FlyingRectangle S) < - speed (new_FlyingRectangle S)"
  by (simp add: new_FlyingRectangle_def rectCenterX_eq)

section \<open>Rendering\<close>

lemma FlyingRectangle_render_fst: "fst (FlyingRectangle_render r c) = r"
  by (simp add: FlyingRectangle_render_def Let_def)

lemma FlyingRectangle_render_snd:
  "snd (FlyingRectangle_render r c) =
     c\<lparr>fillStyle := color r, path := [],
       bitmap := (\<lambda>p. if covers r p then Some (color r) else bitmap c p)\<rparr>"
  by (intro RenderContext.equality)
    (simp_all add: FlyingRectangle_render_def Let_def beginPath_def fillRect_def covers_def
      cong: if_cong)

lemma forEach_render_fst: "fst (forEach_render es c) = es"
  by (induction es arbitrary: c) (simp_all add: split_beta FlyingRectangle_render_fst)

lemma forEach_render_Cons:
  "snd (forEach_render (e # es) c) = snd (forEach_render es (snd (FlyingRectangle_render e c)))"
  by (simp add: split_beta)

lemma forEach_render_bitmap:
  "bitmap (snd (forEach_render es c)) p =
     (case top_color es p of Some col \<Rightarrow> Some col | None \<Rightarrow> bitmap c p)"
proof (induction es arbitrary: c)
  case Nil
  show ?case by simp
next
  case (Cons e es)
  show ?case
    unfolding forEach_render_Cons Cons.IH
    by (simp add: FlyingRectangle_render_snd split: option.splits)
qed

lemma forEach_render_fillStyle:
  "fillStyle (snd (forEach_render es c)) = (if es = [] then fillStyle c else color (last es))"
proof (induction es arbitrary: c)
  case Nil
  show ?case by simp
next
  case (Cons e es)
  show ?case
    unfolding forEach_render_Cons Cons.IH
    by (simp add: FlyingRectangle_render_snd)
qed

lemma forEach_render_path:
  "path (snd (forEach_render es c)) = (if es = [] then path c else [])"
proof (induction es arbitrary: c)
  case Nil
  show ?case by simp
next
  case (Cons e es)
  show ?case
    unfolding forEach_render_Cons Cons.IH
    by (simp add: FlyingRectangle_render_snd)
qed

lemma Application_render_entities: "entities (Application_render S app) = entities app"
  by (simp add: Application_render_def Application_clear_def Let_def split_beta forEach_render_fst)

lemma Application_render_context:
  "context2d (Application_render S app) =
     snd (forEach_render (entities app)
            (clearRect 0 0 (CANVAS_WIDTH S) (CANVAS_HEIGHT S) (context2d app)))"
  by (simp add: Application_render_def Application_clear_def Let_def split_beta)

lemma Application_render_bitmap:
  "bitmap (context2d (Application_render S app)) p =
     (case top_color (entities app) p of
        Some col \<Rightarrow> Some col
      | None \<Rightarrow> if in_rect 0 0 (CANVAS_WIDTH S) (CANVAS_HEIGHT S) p then None
                else bitmap (context2d app) p)"
  by (simp add: Application_render_context forEach_render_bitmap clearRect_def split: option.splits)

lemma Application_render_fillStyle:
  "fillStyle (context2d (Application_render S app)) =
     (if entities app = [] then fillStyle (context2d app) else color (last (entities app)))"
  by (simp add: Application_render_context forEach_render_fillStyle clearRect_def)

lemma Application_render_path:
  "path (context2d (Application_render S app)) =
     (if entities app = [] then path (context2d app) else [])"
  by (simp add: Application_render_context forEach_render_path clearRect_def)

lemma Application_render_idem:
  "Application_render S (Application_render S app) = Application_render S app"
proof -
  let ?a = "Application_render S app"
  have "bitmap (context2d (Application_render S ?a)) = bitmap (context2d ?a)"
    by (rule ext) (simp add: Application_render_bitmap [of S ?a] Application_render_entities
        Application_render_bitmap [of S app] split: option.splits)
  moreover have "fillStyle (context2d (Application_render S ?a)) = fillStyle (context2d ?a)"
    by (simp add: Application_render_fillStyle Application_render_entities)
  moreover have "path (context2d (Application_render S ?a)) = path (context2d ?a)"
    by (simp add: Application_render_path Application_render_entities)
  ultimately have "context2d (Application_render S ?a) = context2d ?a"
    by (intro RenderContext.equality) simp_all
  moreover have "entities (Application_render S ?a) = entities ?a"
    by (simp add: Application_render_entities)
  ultimately show ?thesis
    by (intro Application.equality) simp_all
qed

text \<open>The entities after \<open>n\<close> frames are the entities after \<open>n\<close> updates.\<close>

lemma Application_frames_entities:
  "entities (Application_frames S n app) = map (FlyingRectangle_update S ^^ n) (entities app)"
proof (induction n arbitrary: app)
  case 0
  show ?case by simp
next
  case (Suc n)
  have "entities (Application_frames S (Suc n) app)
      = map (FlyingRectangle_update S ^^ n) (map (FlyingRectangle_update S) (entities app))"
    by (simp add: Suc.IH Application_render_entities Application_update_def)
  also have "\<dots> = map (FlyingRectangle_update S ^^ Suc n) (entities app)"
    by (simp add: funpow_Suc_right del: funpow.simps)
  finally show ?case .
qed

lemma Application_run_entities:
  "entities (Application_run S n (new_Application c))
     = [(FlyingRectangle_update S ^^ n) (new_FlyingRectangle S)]"
  by (simp add: Application_run_def Application_frames_entities Application_setup_def
      new_Application_def)

text \<open>
  C4, as the code has it. On a surface at least 124 wide and 68 high (the sizes from which
  the centred start is not below \<open>- speed\<close>), every state that repeated \<^verbatim>\<open>update()\<close>
  calls reach from the initial state has \<open>- speed \<le> x \<le> CANVAS_WIDTH\<close>,
  \<open>- speed \<le> y \<le> CANVAS_HEIGHT\<close> and both directions in \<open>{- 1, 1}\<close>; these states are
  the ones the entity of the running application is in at the start of each
  \<^verbatim>\<open>update()\<close>.
\<close>

theorem reachable_in_bounds:
  assumes "124 \<le> CANVAS_WIDTH S" and "68 \<le> CANVAS_HEIGHT S"
  shows "in_bounds S ((FlyingRectangle_update S ^^ n) (new_FlyingRectangle S))
       \<and> entities (Application_run S n (new_Application c))
           = [(FlyingRectangle_update S ^^ n) (new_FlyingRectangle S)]"
proof -
  have "bounce_inv S ((FlyingRectangle_update S ^^ n) (new_FlyingRectangle S))"
    using assms by (rule bounce_inv_funpow)
  with assms have "in_bounds S ((FlyingRectangle_update S ^^ n) (new_FlyingRectangle S))"
    by (rule bounce_inv_in_bounds)
  then show ?thesis
    by (simp add: Application_run_entities)
qed

theorem reachable_in_bounds_witness:
  "124 \<le> CANVAS_WIDTH surface_1000_800 \<and> 68 \<le> CANVAS_HEIGHT surface_1000_800
   \<and> in_bounds surface_1000_800
        ((FlyingRectangle_update surface_1000_800 ^^ 250) (new_FlyingRectangle surface_1000_800))"
  using reachable_in_bounds [of surface_1000_800 250 blank_context]
  by (simp add: surface_1000_800_def)

text \<open>
  C4 as it is stated has no condition on the surface. In a window of 100 by 100 pixels the
  initial state itself is at \<open>x = - 14\<close>, below \<open>- speed = - 2\<close>.
\<close>

theorem small_surface_out_of_bounds:
  "\<not> in_bounds surface_100_100
       ((FlyingRectangle_update surface_100_100 ^^ 0) (new_FlyingRectangle surface_100_100))"
  by (simp add: in_bounds_def new_FlyingRectangle_def rectCenterX_eq surface_100_100_def)

section \<open>The colour counter\<close>

lemma call_entity_mono: "colorIndex (fst rc) \<le> colorIndex (fst (call_entity S rc call))"
  by (cases rc; cases call)
    (simp_all add: FlyingRectangle_setup_def FlyingRectangle_render_def update_colorIndex Let_def)

lemma call_entity_consistent:
  "color_consistent (fst rc) \<Longrightarrow> color_consistent (fst (call_entity S rc call))"
  by (cases rc; cases call)
    (simp_all add: FlyingRectangle_setup_def FlyingRectangle_render_def update_consistent Let_def)

lemma calls_mono:
  "colorIndex (fst rc) \<le> colorIndex (fst (foldl (call_entity S) rc calls))"
proof (induction calls arbitrary: rc)
  case Nil
  show ?case by simp
next
  case (Cons call calls)
  have "colorIndex (fst rc) \<le> colorIndex (fst (call_entity S rc call))"
    by (rule call_entity_mono)
  also have "\<dots> \<le> colorIndex (fst (foldl (call_entity S) (call_entity S rc call) calls))"
    by (rule Cons.IH)
  finally show ?case by simp
qed

lemma calls_consistent:
  "color_consistent (fst rc) \<Longrightarrow> color_consistent (fst (foldl (call_entity S) rc calls))"
  by (induction calls arbitrary: rc) (simp_all add: call_entity_consistent)

lemma funpow_updateColor_index:
  "colorIndex ((FlyingRectangle_updateColor ^^ n) r) = colorIndex r + n"
  by (induction n) (simp_all add: FlyingRectangle_updateColor_def Let_def)

lemma funpow_updateColor_consistent:
  "0 < n \<Longrightarrow> color_consistent ((FlyingRectangle_updateColor ^^ n) r)"
  by (cases n) (simp_all add: updateColor_consistent)

text \<open>
  C5. \<^verbatim>\<open>updateColor()\<close> adds 1 to the counter and sets the colour to
  \<open>colors ! (counter mod 8)\<close>. No call of \<^verbatim>\<open>setup\<close>, \<^verbatim>\<open>update\<close> or \<^verbatim>\<open>render\<close>
  lowers the counter: along any sequence of calls it only grows. After any sequence of
  calls on a new rectangle the colour is \<open>colors ! (counter mod 8)\<close>. Eight increments
  from counter 0 give counter 8 and the colour \<open>colors ! 0\<close> again.
\<close>

theorem color_counter:
  "colorIndex (FlyingRectangle_updateColor r) = colorIndex r + 1
   \<and> color (FlyingRectangle_updateColor r) = colors ! (colorIndex (FlyingRectangle_updateColor r) mod 8)
   \<and> colorIndex (fst (foldl (call_entity S) (r, c) calls))
       \<le> colorIndex (fst (foldl (call_entity S) (r, c) (calls @ more_calls)))
   \<and> color (fst (foldl (call_entity S) (new_FlyingRectangle S, c) calls))
       = colors ! (colorIndex (fst (foldl (call_entity S) (new_FlyingRectangle S, c) calls)) mod 8)
   \<and> (colorIndex r = 0 \<longrightarrow>
        colorIndex ((FlyingRectangle_updateColor ^^ 8) r) = 8
        \<and> color ((FlyingRectangle_updateColor ^^ 8) r) = colors ! 0)"
proof -
  have a: "colorIndex (FlyingRectangle_updateColor r) = colorIndex r + 1"
    by (simp add: FlyingRectangle_updateColor_def Let_def)
  have b: "color (FlyingRectangle_updateColor r)
      = colors ! (colorIndex (FlyingRectangle_updateColor r) mod 8)"
    using updateColor_consistent [of r] by (simp add: color_consistent_def length_colors)
  have c: "colorIndex (fst (foldl (call_entity S) (r, c) calls))
      \<le> colorIndex (fst (foldl (call_entity S) (r, c) (calls @ more_calls)))"
    using calls_mono [of "foldl (call_entity S) (r, c) calls" S more_calls] by simp
  have d: "color (fst (foldl (call_entity S) (new_FlyingRectangle S, c) calls))
      = colors ! (colorIndex (fst (foldl (call_entity S) (new_FlyingRectangle S, c) calls)) mod 8)"
  proof -
    have "color_consistent (fst (foldl (call_entity S) (new_FlyingRectangle S, c) calls))"
      by (rule calls_consistent) (simp add: new_consistent)
    then show ?thesis
      by (simp add: color_consistent_def length_colors)
  qed
  have e: "colorIndex r = 0 \<longrightarrow>
        colorIndex ((FlyingRectangle_updateColor ^^ 8) r) = 8
        \<and> color ((FlyingRectangle_updateColor ^^ 8) r) = colors ! 0"
    using funpow_updateColor_consistent [of 8 r] funpow_updateColor_index [of 8 r]
    by (simp add: color_consistent_def length_colors)
  from a b c d e show ?thesis by blast
qed

theorem color_counter_witness:
  "colorIndex (new_FlyingRectangle surface_1000_800) = 0
   \<and> colorIndex ((FlyingRectangle_updateColor ^^ 8) (new_FlyingRectangle surface_1000_800)) = 8
   \<and> color ((FlyingRectangle_updateColor ^^ 8) (new_FlyingRectangle surface_1000_800)) = ''red''"
  using color_counter [of "new_FlyingRectangle surface_1000_800"]
  by (simp add: new_FlyingRectangle_def colors_def)

section \<open>A frame\<close>

text \<open>
  C7. \<^verbatim>\<open>render(context)\<close> of the entity returns the entity as it was, and
  \<^verbatim>\<open>Application.render()\<close> leaves the entity collection as it was. The context after
  \<^verbatim>\<open>Application.render()\<close> is the one obtained by clearing the rectangle
  \<open>(0, 0, CANVAS_WIDTH, CANVAS_HEIGHT)\<close> first and rendering the entities in the order of
  the collection then; every pixel of the surface shows the colour of the last entity that
  covers it and is cleared where none does, whatever was drawn before. Rendering a second
  time changes nothing: the same pixels, the same state.
\<close>

theorem render_frame:
  "fst (FlyingRectangle_render r c) = r
   \<and> entities (Application_render S app) = entities app
   \<and> context2d (Application_render S app) =
       snd (forEach_render (entities app)
              (clearRect 0 0 (CANVAS_WIDTH S) (CANVAS_HEIGHT S) (context2d app)))
   \<and> (0 \<le> i \<and> i < CANVAS_WIDTH S \<and> 0 \<le> j \<and> j < CANVAS_HEIGHT S \<longrightarrow>
        bitmap (context2d (Application_render S app)) (i, j) = top_color (entities app) (i, j))
   \<and> Application_render S (Application_render S app) = Application_render S app"
proof -
  have "0 \<le> i \<and> i < CANVAS_WIDTH S \<and> 0 \<le> j \<and> j < CANVAS_HEIGHT S \<longrightarrow>
        bitmap (context2d (Application_render S app)) (i, j) = top_color (entities app) (i, j)"
    by (auto simp: Application_render_bitmap in_rect_def split: option.splits)
  then show ?thesis
    by (simp add: FlyingRectangle_render_fst Application_render_entities
        Application_render_context [symmetric] Application_render_idem)
qed

theorem render_frame_witness:
  "(0::int) \<le> 900 \<and> 900 < CANVAS_WIDTH surface_1000_800
   \<and> (0::int) \<le> 50 \<and> 50 < CANVAS_HEIGHT surface_1000_800
   \<and> bitmap (context2d (Application_render surface_1000_800 two_rectangles)) (900, 50)
       = Some ''magenta''
   \<and> entities (Application_render surface_1000_800 two_rectangles)
       = [interior_state, corner_1000]"
proof -
  have h: "(0::int) \<le> 900 \<and> 900 < CANVAS_WIDTH surface_1000_800
      \<and> (0::int) \<le> 50 \<and> 50 < CANVAS_HEIGHT surface_1000_800"
    by (simp add: surface_1000_800_def)
  have e: "entities two_rectangles = [interior_state, corner_1000]"
    by (simp add: two_rectangles_def)
  have t: "top_color [interior_state, corner_1000] (900, 50) = Some ''magenta''"
    by (simp add: covers_def in_rect_def interior_state_def corner_1000_def
        RECT_WIDTH_def RECT_HEIGHT_def)
  note frame = render_frame [where S = surface_1000_800 and app = two_rectangles
      and i = 900 and j = 50 and r = interior_state and c = blank_context]
  have p: "bitmap (context2d (Application_render surface_1000_800 two_rectangles)) (900, 50)
      = top_color (entities two_rectangles) (900, 50)"
    using frame h by blast
  have q: "entities (Application_render surface_1000_800 two_rectangles)
      = entities two_rectangles"
    using frame by blast
  show ?thesis
    using h p q e t by simp
qed

section \<open>Start-up\<close>

text \<open>
  C6, as the code has it. The start-up fails in exactly two cases. Without the mounting
  element the script throws an \<^verbatim>\<open>Error\<close> with the message
  \<^verbatim>\<open>Root element is missing\<close>. With it, when the canvas gives no 2D context,
  \<^verbatim>\<open>Application.create\<close> throws an \<^verbatim>\<open>Error\<close> with the message
  \<^verbatim>\<open>Failed to retrieve rendering context\<close> and returns no \<^verbatim>\<open>Application\<close>. In
  every other case \<^verbatim>\<open>create\<close> returns the application and the frames run.
\<close>

theorem startup_errors:
  "(rootEl = None \<longrightarrow>
      main S rootEl getContext n =
        (None, Inl \<lparr>name = ''Error'', message = ''Root element is missing''\<rparr>))
   \<and> (rootEl = Some el \<and> getContext (create_canvas S) = None \<longrightarrow>
        snd (Application_create S getContext el) =
          Inl \<lparr>name = ''Error'', message = ''Failed to retrieve rendering context''\<rparr>
        \<and> snd (main S rootEl getContext n) =
          Inl \<lparr>name = ''Error'', message = ''Failed to retrieve rendering context''\<rparr>)
   \<and> (rootEl = Some el \<and> getContext (create_canvas S) = Some rc \<longrightarrow>
        snd (Application_create S getContext el) = Inr (new_Application rc)
        \<and> snd (main S rootEl getContext n) = Inr (Application_run S n (new_Application rc)))
   \<and> (isl (snd (main S rootEl getContext n))
        \<longleftrightarrow> rootEl = None \<or> getContext (create_canvas S) = None)"
  by (cases rootEl; cases "getContext (create_canvas S)")
    (simp_all add: main_def Application_create_def new_Error_def Let_def)

theorem startup_errors_witness:
  "main surface_1000_800 None fresh_context 3 =
      (None, Inl \<lparr>name = ''Error'', message = ''Root element is missing''\<rparr>)
   \<and> no_context (create_canvas surface_1000_800) = None
   \<and> snd (main surface_1000_800 (Some empty_root) no_context 3) =
        Inl \<lparr>name = ''Error'', message = ''Failed to retrieve rendering context''\<rparr>
   \<and> fresh_context (create_canvas surface_1000_800) = Some blank_context
   \<and> snd (main surface_1000_800 (Some empty_root) fresh_context 3) =
        Inr (Application_run surface_1000_800 3 (new_Application blank_context))"
  using startup_errors [where rootEl = None and S = surface_1000_800
      and getContext = fresh_context and n = 3]
    startup_errors [where rootEl = "Some empty_root" and el = empty_root
      and S = surface_1000_800 and getContext = no_context and n = 3]
    startup_errors [where rootEl = "Some empty_root" and el = empty_root
      and S = surface_1000_800 and getContext = fresh_context and rc = blank_context and n = 3]
  by (simp add: no_context_def fresh_context_def)

text \<open>
  C6 as it is stated names the errors \<^verbatim>\<open>SetupError("root element missing")\<close> and
  \<^verbatim>\<open>SetupError("failed to retrieve rendering context")\<close>. The program has no such
  class and other messages.
\<close>

theorem startup_errors_not_SetupError:
  "snd (main surface_1000_800 None fresh_context 0)
     \<noteq> Inl \<lparr>name = ''SetupError'', message = ''root element missing''\<rparr>
   \<and> snd (main surface_1000_800 (Some empty_root) no_context 0)
     \<noteq> Inl \<lparr>name = ''SetupError'', message = ''failed to retrieve rendering context''\<rparr>"
  by (simp add: main_def Application_create_def new_Error_def no_context_def Let_def)

text \<open>
  C10. \<^verbatim>\<open>Application.create\<close> appends the canvas to the mounting element whatever
  \<^verbatim>\<open>getContext\<close> answers: the element it leaves behind has the canvas as its last
  child and is not the element it was given. When there is no context, the error comes
  together with that changed element.
\<close>

theorem create_appends_first:
  "fst (Application_create S getContext el) = appendChild el (CanvasNode (create_canvas S))
   \<and> childNodes (fst (Application_create S getContext el)) =
       childNodes el @ [CanvasNode (create_canvas S)]
   \<and> fst (Application_create S getContext el) \<noteq> el
   \<and> (getContext (create_canvas S) = None \<longrightarrow>
        Application_create S getContext el =
          (appendChild el (CanvasNode (create_canvas S)),
           Inl (new_Error ''Failed to retrieve rendering context'')))"
proof -
  have a: "fst (Application_create S getContext el) = appendChild el (CanvasNode (create_canvas S))"
    by (simp add: Application_create_def Let_def split: option.splits)
  have b: "childNodes (appendChild el (CanvasNode (create_canvas S))) =
       childNodes el @ [CanvasNode (create_canvas S)]"
    by (simp add: appendChild_def)
  have c: "appendChild el (CanvasNode (create_canvas S)) \<noteq> el"
  proof
    assume "appendChild el (CanvasNode (create_canvas S)) = el"
    then have "childNodes (appendChild el (CanvasNode (create_canvas S))) = childNodes el"
      by simp
    then show False
      by (simp add: appendChild_def)
  qed
  have d: "getContext (create_canvas S) = None \<longrightarrow>
        Application_create S getContext el =
          (appendChild el (CanvasNode (create_canvas S)),
           Inl (new_Error ''Failed to retrieve rendering context''))"
    by (simp add: Application_create_def Let_def)
  from a b c d show ?thesis by simp
qed

theorem create_appends_first_witness:
  "no_context (create_canvas surface_1000_800) = None
   \<and> Application_create surface_1000_800 no_context empty_root =
       (\<lparr>childNodes = [CanvasNode \<lparr>width = 1000, height = 800, style = ''background: #000''\<rparr>]\<rparr>,
        Inl \<lparr>name = ''Error'', message = ''Failed to retrieve rendering context''\<rparr>)"
  using create_appends_first [where S = surface_1000_800 and getContext = no_context
      and el = empty_root]
  by (simp add: no_context_def appendChild_def create_canvas_def createElement_canvas_def
      empty_root_def surface_1000_800_def new_Error_def Let_def)

text \<open>
  C8. \<^verbatim>\<open>FlyingRectangle.setup()\<close> has an empty body: it returns every state unchanged.
\<close>

theorem setup_noop:
  "FlyingRectangle_setup r = r"
  by (simp add: FlyingRectangle_setup_def)

end
